theory Spec2Isabelle
  imports Main "HOL-Library.Word"
begin

section \<open>Data model\<close>

text \<open>
  The program is the version of \<^verbatim>\<open>main.go\<close> with the channels
  \<^verbatim>\<open>weatherChan\<close>, \<^verbatim>\<open>errorChan\<close> and \<^verbatim>\<open>cmdChan\<close>: an input reader, a
  loop in \<^verbatim>\<open>main\<close> that selects over the three channels, and goroutines for the
  commands and for the weather requests.
  A \<^verbatim>\<open>float32\<close> is only copied and printed, never computed with, so it is
  its 32-bit pattern. A Go \<^verbatim>\<open>string\<close> is a byte string; \<^verbatim>\<open>strings.ToLower\<close>
  and \<^verbatim>\<open>strings.Fields\<close> are modelled as Go defines them on ASCII input (bytes
  from 0x80 on are kept as they are and are not white space). A Go \<^verbatim>\<open>error\<close> is
  its message.
\<close>

type_synonym float32 = "32 word"

record Coordinates =
  Lat :: float32
  Lon :: float32

record Location =
  City :: string
  Country :: string
  Coordinates :: Coordinates

record Config =
  Language :: string
  Units :: string
  Favourites :: "Location list"

text \<open>\<^verbatim>\<open>GeoResponse\<close> has fields Name, Lat, Lon, Country; the last three are
  prefixed here, a record field being a constant of the theory.\<close>

record GeoResponse =
  Name :: string
  GeoLat :: float32
  GeoLon :: float32
  GeoCountry :: string

text \<open>\<^verbatim>\<open>WeatherResponse\<close> after \<^verbatim>\<open>json.Unmarshal\<close>: the descriptions of
  \<^verbatim>\<open>WeatherDetails\<close>, \<^verbatim>\<open>Temperatures.Temp\<close>, \<^verbatim>\<open>Temperatures.FeelsLike\<close>,
  \<^verbatim>\<open>City\<close> and \<^verbatim>\<open>LocationDetails.Country\<close>.\<close>

record WeatherResponse =
  WeatherDetails :: "string list"
  TemperaturesTemp :: float32
  TemperaturesFeelsLike :: float32
  ResponseCity :: string
  LocationDetailsCountry :: string

record WeatherResult =
  Temperature :: float32
  FeelsLike :: float32
  Description :: string
  ResultCountry :: string
  ResultCity :: string

subsection \<open>The outside world\<close>

text \<open>
  What the provider and the file system answer. \<open>geoData\<close> is \<^verbatim>\<open>fetchData(GEO_URL)\<close>
  followed by \<^verbatim>\<open>json.Unmarshal\<close> into a \<^verbatim>\<open>[]GeoResponse\<close>, for the city and
  country of the URL; \<open>weatherData\<close> is the same for the weather URL, which is built
  from the coordinates and \<^verbatim>\<open>config.Language\<close>. \<open>Inl\<close> is the error that
  \<^verbatim>\<open>fetchData\<close> returns. \<open>marshalErr\<close> and \<open>writeErr\<close> are the errors of
  \<^verbatim>\<open>json.Marshal(config)\<close> and of \<^verbatim>\<open>os.WriteFile\<close> in \<^verbatim>\<open>saveConfig\<close>
  (\<open>None\<close> is \<^verbatim>\<open>nil\<close>).
\<close>

record world =
  geoData :: "string \<Rightarrow> string \<Rightarrow> string + GeoResponse list"
  weatherData :: "Coordinates \<Rightarrow> string \<Rightarrow> string + WeatherResponse"
  marshalErr :: "Config \<Rightarrow> string option"
  writeErr :: "Config \<Rightarrow> string option"

subsection \<open>What a goroutine does\<close>

text \<open>
  Output on the terminal, one item for each call: \<open>Prompt\<close> is
  \<^verbatim>\<open>fmt.Print("\nCommand: ")\<close>, \<open>Println s\<close> is \<^verbatim>\<open>fmt.Println\<close> of the text
  \<open>s\<close> (of an error: its message), \<open>Printf s\<close> is the text a \<^verbatim>\<open>fmt.Printf\<close>
  or \<^verbatim>\<open>fmt.Print\<close> writes, \<open>PrintResult r\<close> is \<^verbatim>\<open>printResult(r)\<close> and
  \<open>PrintCommands\<close> is \<^verbatim>\<open>printCommands()\<close>.
\<close>

datatype out =
    Prompt
  | Println string
  | Printf string
  | PrintResult WeatherResult
  | PrintCommands

text \<open>
  The effects of a function, in program order. \<open>WriteConfig c\<close> is a
  \<^verbatim>\<open>saveConfig\<close> that succeeded with the JSON of \<open>c\<close>; \<open>SendError e\<close> is
  \<^verbatim>\<open>errorChan <- e\<close>; \<open>SendWeather r\<close> is \<^verbatim>\<open>weatherChan <- r\<close>;
  \<open>RecvWeatherPrint\<close> is \<^verbatim>\<open>printResult(<-weatherChan)\<close>;
  \<open>GoFetchWeather c\<close> is \<^verbatim>\<open>go fetchWeather(c, weatherChan, errorChan)\<close>.
\<close>

datatype effect =
    Print out
  | WriteConfig Config
  | SendError string
  | SendWeather WeatherResult
  | RecvWeatherPrint
  | GoFetchWeather Coordinates

section \<open>Strings\<close>

definition toLowerByte :: "char \<Rightarrow> char" where
  "toLowerByte c =
     (let n = (of_char c :: nat) in if 65 \<le> n \<and> n \<le> 90 then char_of (n + 32) else c)"

definition ToLower :: "string \<Rightarrow> string" where
  "ToLower s = map toLowerByte s"

definition asciiSpace :: "char \<Rightarrow> bool" where
  "asciiSpace c = ((of_char c :: nat) \<in> {9, 10, 11, 12, 13, 32})"

text \<open>\<^verbatim>\<open>strings.Fields\<close>: the maximal runs of bytes that are not white space;
  \<open>cur\<close> is the field being read.\<close>

fun FieldsFrom :: "string \<Rightarrow> string \<Rightarrow> string list" where
  "FieldsFrom cur [] = (if cur = [] then [] else [cur])"
| "FieldsFrom cur (c # cs) =
     (if asciiSpace c then (if cur = [] then [] else [cur]) @ FieldsFrom [] cs
      else FieldsFrom (cur @ [c]) cs)"

definition Fields :: "string \<Rightarrow> string list" where
  "Fields s = FieldsFrom [] s"

section \<open>The functions of main.go\<close>

definition fetchLocationData :: "world \<Rightarrow> string \<Rightarrow> string \<Rightarrow> string + GeoResponse" where
  "fetchLocationData w city country =
     (case geoData w city country of
        Inl err \<Rightarrow> Inl err
      | Inr result \<Rightarrow>
          if length result = 0 then Inl ''Location not found'' else Inr (result ! 0))"

text \<open>\<^verbatim>\<open>fetchWeather\<close> reads \<^verbatim>\<open>config.Language\<close> for the URL and sends on one
  of the two channels.\<close>

definition fetchWeather :: "world \<Rightarrow> Config \<Rightarrow> Coordinates \<Rightarrow> effect list" where
  "fetchWeather w cfg coordinates =
     (case weatherData w coordinates (Language cfg) of
        Inl err \<Rightarrow> [SendError err]
      | Inr result \<Rightarrow>
          if length (WeatherDetails result) = 0 then [SendError ''Not found'']
          else [SendWeather \<lparr>Temperature = TemperaturesTemp result,
                  FeelsLike = TemperaturesFeelsLike result,
                  Description = WeatherDetails result ! 0,
                  ResultCountry = LocationDetailsCountry result,
                  ResultCity = ResponseCity result\<rparr>])"

text \<open>The loop of \<^verbatim>\<open>fetchFavourites\<close>, from index \<open>i\<close> on.\<close>

function fetchFavouritesLoop :: "Config \<Rightarrow> nat \<Rightarrow> effect list" where
  "fetchFavouritesLoop cfg i =
     (if i < length (Favourites cfg)
      then GoFetchWeather (Coordinates (Favourites cfg ! i)) # fetchFavouritesLoop cfg (i + 1)
      else [])"
  by pat_completeness auto
termination
  by (relation "measure (\<lambda>(cfg, i). length (Favourites cfg) - i)") auto

declare fetchFavouritesLoop.simps [simp del]

definition fetchFavourites :: "Config \<Rightarrow> effect list" where
  "fetchFavourites cfg =
     (if length (Favourites cfg) = 0 then [Print (Println ''No favourites added'')] else [])
     @ fetchFavouritesLoop cfg 0"

function listFavouritesLoop :: "Location list \<Rightarrow> nat \<Rightarrow> effect list" where
  "listFavouritesLoop favourites i =
     (if i < length favourites
      then Print (Printf ([CHR 0x0A] @ City (favourites ! i) @ '', '' @ Country (favourites ! i)))
             # listFavouritesLoop favourites (i + 1)
      else [])"
  by pat_completeness auto
termination
  by (relation "measure (\<lambda>(favourites, i). length favourites - i)") auto

declare listFavouritesLoop.simps [simp del]

definition listFavourites :: "Config \<Rightarrow> effect list" where
  "listFavourites cfg =
     (let favourites = Favourites cfg in
      (if length favourites = 0 then [Print (Println ''No favourites added'')] else [])
      @ [Print (Println ([CHR 0x0A] @ ''------Favourites------''))]
      @ listFavouritesLoop favourites 0
      @ [Print (Printf ([CHR 0x0A, CHR 0x0A] @ ''----------------------'' @ [CHR 0x0A, CHR 0x0A]))])"

text \<open>The search loop of \<^verbatim>\<open>removeFavourite\<close>, from index \<open>i\<close> on: the first
  index whose city, in lower case, is \<open>city\<close>, or \<open>-1\<close>.\<close>

function removeFavouriteIndex :: "Location list \<Rightarrow> string \<Rightarrow> nat \<Rightarrow> int" where
  "removeFavouriteIndex favourites city i =
     (if i < length favourites
      then (if ToLower (City (favourites ! i)) = city then int i
            else removeFavouriteIndex favourites city (i + 1))
      else - 1)"
  by pat_completeness auto
termination
  by (relation "measure (\<lambda>(favourites, city, i). length favourites - i)") auto

declare removeFavouriteIndex.simps [simp del]

text \<open>A function that returns an \<^verbatim>\<open>error\<close> and changes \<^verbatim>\<open>config\<close> gives the
  new \<^verbatim>\<open>config\<close>, its effects and the error (\<open>None\<close> is \<^verbatim>\<open>nil\<close>).\<close>

definition removeFavourite :: "world \<Rightarrow> Config \<Rightarrow> string \<Rightarrow> Config \<times> effect list \<times> string option" where
  "removeFavourite w cfg city =
     (let index = removeFavouriteIndex (Favourites cfg) city 0 in
      if index = - 1
      then (cfg, [], Some (''City '' @ city @ '' does not exist in favourites''))
      else
        let cfg' = cfg\<lparr>Favourites :=
                     take (nat index) (Favourites cfg) @ drop (nat index + 1) (Favourites cfg)\<rparr>
        in case marshalErr w cfg' of
             Some err \<Rightarrow> (cfg', [], Some err)
           | None \<Rightarrow>
              (case writeErr w cfg' of
                 Some err \<Rightarrow> (cfg', [], Some err)
               | None \<Rightarrow>
                  (cfg',
                   [WriteConfig cfg',
                    Print (Printf (''City '' @ city @ '' successfully removed from favourites''
                                   @ [CHR 0x0A]))],
                   None)))"

text \<open>The duplicate check of \<^verbatim>\<open>addFavourite\<close>, from index \<open>i\<close> on.\<close>

function addFavouriteExists :: "Location list \<Rightarrow> string \<Rightarrow> nat \<Rightarrow> bool" where
  "addFavouriteExists favourites city i =
     (if i < length favourites
      then (if ToLower (City (favourites ! i)) = ToLower city then True
            else addFavouriteExists favourites city (i + 1))
      else False)"
  by pat_completeness auto
termination
  by (relation "measure (\<lambda>(favourites, city, i). length favourites - i)") auto

declare addFavouriteExists.simps [simp del]

definition addFavourite ::
  "world \<Rightarrow> Config \<Rightarrow> string \<Rightarrow> string \<Rightarrow> Config \<times> effect list \<times> string option" where
  "addFavourite w cfg city country =
     (if addFavouriteExists (Favourites cfg) city 0
      then (cfg, [], Some (city @ '' already exists in favourites''))
      else
        case fetchLocationData w city country of
          Inl err \<Rightarrow> (cfg, [], Some err)
        | Inr locationData \<Rightarrow>
            let coordinates = \<lparr>Lat = GeoLat locationData, Lon = GeoLon locationData\<rparr>;
                cfg' = cfg\<lparr>Favourites := Favourites cfg @
                             [\<lparr>City = Name locationData, Country = GeoCountry locationData,
                               Coordinates = coordinates\<rparr>]\<rparr>
            in case marshalErr w cfg' of
                 Some err \<Rightarrow> (cfg', [], Some (''Failed to marshal data: '' @ err))
               | None \<Rightarrow>
                  (case writeErr w cfg' of
                     Some err \<Rightarrow> (cfg', [], Some (''Failed to save config file: '' @ err))
                   | None \<Rightarrow>
                      (cfg',
                       [WriteConfig cfg',
                        Print (Printf (''New location '' @ Name locationData @ '', ''
                                       @ GeoCountry locationData @ '' added to favourites''
                                       @ [CHR 0x0A]))],
                       None)))"

definition getWeatherByCity :: "world \<Rightarrow> string \<Rightarrow> string \<Rightarrow> effect list" where
  "getWeatherByCity w city country =
     (case fetchLocationData w city country of
        Inl err \<Rightarrow> [SendError err]
      | Inr data \<Rightarrow> [GoFetchWeather \<lparr>Lat = GeoLat data, Lon = GeoLon data\<rparr>])"

text \<open>\<^verbatim>\<open>handleCommand\<close>: the new \<^verbatim>\<open>config\<close> and the effects in program order.\<close>

definition handleCommand :: "world \<Rightarrow> Config \<Rightarrow> string list \<Rightarrow> Config \<times> effect list" where
  "handleCommand w cfg input =
     (if length input = 0 then (cfg, [])
      else
        let command = ToLower (input ! 0);
            city = (if length input > 1 then ToLower (input ! 1) else []);
            country = (if length input > 2 then ToLower (input ! 2) else [])
        in
          if command = ''w'' then
            (if length input < 2
             then (cfg, [Print (Println []), SendError ''Missing city parameter''])
             else (cfg, Print (Println []) # getWeatherByCity w city country @ [RecvWeatherPrint]))
          else if command = ''f'' then (cfg, Print (Println []) # fetchFavourites cfg)
          else if command = ''list'' then (cfg, Print (Println []) # listFavourites cfg)
          else if command = ''fav'' then
            (if length input < 2
             then (cfg, [Print (Println []), SendError ''Missing city parameter''])
             else
               (case addFavourite w cfg city country of
                  (cfg', effects, err) \<Rightarrow>
                    (cfg', Print (Println []) # effects
                           @ (case err of None \<Rightarrow> [] | Some e \<Rightarrow> [SendError e]))))
          else if command = ''remove'' then
            (case removeFavourite w cfg city of
               (cfg', effects, err) \<Rightarrow>
                 (cfg', Print (Println []) # effects
                        @ (case err of None \<Rightarrow> [] | Some e \<Rightarrow> [SendError e])))
          else if command = ''help'' then (cfg, [Print (Println []), Print PrintCommands])
          else (cfg, [Print (Println []), Print (Println ''Unknown command'')]))"

section \<open>The input reader\<close>

text \<open>
  Standard input as the \<^verbatim>\<open>bufio.Scanner\<close> of \<^verbatim>\<open>handleInput\<close> sees it: the lines
  that \<^verbatim>\<open>Scan\<close> still returns, and how the stream ends. At the end \<^verbatim>\<open>Scan\<close> is
  false from then on; \<^verbatim>\<open>Err\<close> is \<^verbatim>\<open>nil\<close> at end of file and the error
  otherwise.
\<close>

datatype scanEnd = EOF | ScanError string

text \<open>One iteration of the loop of \<^verbatim>\<open>handleInput\<close>: it sends the fields of the
  next line on \<^verbatim>\<open>cmdChan\<close>, or finds nothing to do, or ends the process with
  \<^verbatim>\<open>log.Fatal\<close>.\<close>

datatype readerStep = Forward "string list" | Idle | Fatal string

definition handleInputIter :: "string list \<Rightarrow> scanEnd \<Rightarrow> readerStep" where
  "handleInputIter ls e =
     (case ls of
        l # rest \<Rightarrow> Forward (Fields l)
      | [] \<Rightarrow> (case e of EOF \<Rightarrow> Idle | ScanError m \<Rightarrow> Fatal (''Failed to scan input'' @ m)))"

text \<open>\<^verbatim>\<open>handleInput\<close> for \<open>n\<close> iterations, every send being received: what it
  sent on \<^verbatim>\<open>cmdChan\<close>, and the message of \<^verbatim>\<open>log.Fatal\<close> if it got there.\<close>

fun handleInput :: "nat \<Rightarrow> string list \<Rightarrow> scanEnd \<Rightarrow> string list list \<times> string option" where
  "handleInput 0 ls e = ([], None)"
| "handleInput (Suc n) ls e =
     (case handleInputIter ls e of
        Forward input \<Rightarrow>
          (case handleInput n (tl ls) e of (sent, fatal) \<Rightarrow> (input # sent, fatal))
      | Idle \<Rightarrow> handleInput n ls e
      | Fatal m \<Rightarrow> ([], Some m))"

section \<open>Start of main\<close>

datatype readFileResult = NotExist | ReadFileError string | FileData Config

text \<open>
  What \<^verbatim>\<open>readConfigFile\<close> meets: the result of \<^verbatim>\<open>os.ReadFile("config.json")\<close>
  (\<open>FileData c\<close>: the file was read and \<^verbatim>\<open>json.Unmarshal\<close> leaves \<open>c\<close> in
  \<^verbatim>\<open>config\<close>), and the errors of \<^verbatim>\<open>json.Marshal\<close> and \<^verbatim>\<open>saveConfig\<close>
  in \<^verbatim>\<open>createNewConfigFile\<close>.
\<close>

record startup =
  readFile :: readFileResult
  createMarshalErr :: "string option"
  createWriteErr :: "string option"

definition zeroConfig :: Config where
  "zeroConfig = \<lparr>Language = [], Units = [], Favourites = []\<rparr>"

definition createNewConfigFile :: "startup \<Rightarrow> effect list \<times> string option" where
  "createNewConfigFile su =
     (case createMarshalErr su of
        Some err \<Rightarrow> ([], Some err)
      | None \<Rightarrow>
         (case createWriteErr su of
            Some err \<Rightarrow> ([], Some err)
          | None \<Rightarrow>
             ([WriteConfig \<lparr>Language = ''en'', Units = ''metric'', Favourites = []\<rparr>,
               Print (Println ''New Config file created'')], None)))"

text \<open>When the file is missing, \<^verbatim>\<open>data\<close> is \<^verbatim>\<open>nil\<close> and
  \<^verbatim>\<open>json.Unmarshal\<close> leaves the zero \<^verbatim>\<open>config\<close>.\<close>

definition readConfigFile :: "startup \<Rightarrow> Config \<times> effect list \<times> string option" where
  "readConfigFile su =
     (case readFile su of
        NotExist \<Rightarrow>
          (case createNewConfigFile su of
             (effects, Some err) \<Rightarrow>
               (zeroConfig, Print (Println ''Config file missing'') # effects, Some err)
           | (effects, None) \<Rightarrow>
               (zeroConfig, Print (Println ''Config file missing'') # effects, None))
      | ReadFileError err \<Rightarrow> (zeroConfig, [], Some err)
      | FileData c \<Rightarrow> (c, [], None))"

section \<open>Goroutines and channels\<close>

text \<open>
  A goroutine started by a \<^verbatim>\<open>go\<close> statement: \<^verbatim>\<open>go handleCommand(cmd, ...)\<close> in
  \<^verbatim>\<open>main\<close> (the source passes a fourth argument \<^verbatim>\<open>&wg\<close> that nothing declares;
  the call is taken with the three declared parameters) and
  \<^verbatim>\<open>go fetchWeather(c, ...)\<close>. \<open>New\<close>: not yet run. \<open>At es\<close>: it has the
  effects \<open>es\<close> left; with \<open>[]\<close> it has returned.
\<close>

datatype goroutine =
    HandleCommandNew "string list"
  | HandleCommandAt "effect list"
  | FetchWeatherNew Coordinates
  | FetchWeatherAt "effect list"

text \<open>
  The process: the global \<^verbatim>\<open>config\<close>, the successful writes of config.json
  in order, the terminal output, standard input, the goroutines other than
  \<^verbatim>\<open>main\<close> and \<^verbatim>\<open>handleInput\<close>, and the message of \<^verbatim>\<open>log.Fatal\<close> once
  the process has exited. \<^verbatim>\<open>main\<close> is at its \<^verbatim>\<open>select\<close>, the prompt printed.
\<close>

record system =
  config :: Config
  written :: "Config list"
  stdout :: "out list"
  stdinLines :: "string list"
  stdinEnd :: scanEnd
  goroutines :: "goroutine list"
  exited :: "string option"

fun printed :: "effect list \<Rightarrow> out list" where
  "printed [] = []"
| "printed (Print x # es) = x # printed es"
| "printed (e # es) = printed es"

fun writes :: "effect list \<Rightarrow> Config list" where
  "writes [] = []"
| "writes (WriteConfig c # es) = c # writes es"
| "writes (e # es) = writes es"

text \<open>\<^verbatim>\<open>main\<close> up to its first \<^verbatim>\<open>select\<close>: \<^verbatim>\<open>log.Fatal(err)\<close> when
  \<^verbatim>\<open>readConfigFile\<close> fails, else \<^verbatim>\<open>printCommands()\<close>,
  \<^verbatim>\<open>go handleInput(cmdChan)\<close> and the prompt.\<close>

definition mainStart :: "startup \<Rightarrow> string list \<Rightarrow> scanEnd \<Rightarrow> system" where
  "mainStart su ls e =
     (case readConfigFile su of
        (cfg, effects, Some err) \<Rightarrow>
          \<lparr>config = cfg, written = writes effects, stdout = printed effects,
           stdinLines = ls, stdinEnd = e, goroutines = [], exited = Some err\<rparr>
      | (cfg, effects, None) \<Rightarrow>
          \<lparr>config = cfg, written = writes effects,
           stdout = printed effects @ [PrintCommands, Prompt],
           stdinLines = ls, stdinEnd = e, goroutines = [], exited = None\<rparr>)"

fun nextEffect :: "goroutine \<Rightarrow> effect option" where
  "nextEffect (HandleCommandAt (e # es)) = Some e"
| "nextEffect (FetchWeatherAt (e # es)) = Some e"
| "nextEffect g = None"

fun advance :: "goroutine \<Rightarrow> goroutine" where
  "advance (HandleCommandAt es) = HandleCommandAt (tl es)"
| "advance (FetchWeatherAt es) = FetchWeatherAt (tl es)"
| "advance g = g"

text \<open>
  What can happen next. The channels are unbuffered (\<^verbatim>\<open>make(chan T)\<close>), so a send
  and its receive are one event.
  \<^item> \<open>CmdRecv\<close>: \<^verbatim>\<open>handleInput\<close> sends the fields of the next line and the
    \<^verbatim>\<open>select\<close> of \<^verbatim>\<open>main\<close> takes \<^verbatim>\<open>case cmd := <-cmdChan\<close>:
    \<^verbatim>\<open>go handleCommand(cmd, ...)\<close>, then the prompt of the next iteration.
  \<^item> \<open>ReaderIdle\<close>: an iteration of \<^verbatim>\<open>handleInput\<close> at end of file.
  \<^item> \<open>ReaderFatal\<close>: \<^verbatim>\<open>log.Fatal\<close> in \<^verbatim>\<open>handleInput\<close>.
  \<^item> \<open>Enter i w\<close>: goroutine \<open>i\<close> runs for the first time; the outside world answers
    as \<open>w\<close>. What the function reads and writes of \<^verbatim>\<open>config\<close> and what it asks
    of the provider and the file system is taken as this one event, with no other
    goroutine in between; what it prints, starts, sends and receives follows, one event
    each, in program order.
  \<^item> \<open>Perform i\<close>: goroutine \<open>i\<close> performs its next effect, one that does not wait.
  \<^item> \<open>MainRecv i\<close>: the \<^verbatim>\<open>select\<close> of \<^verbatim>\<open>main\<close> receives what goroutine
    \<open>i\<close> sends, prints it, and prints the prompt of the next iteration.
  \<^item> \<open>HandlerRecv i j\<close>: goroutine \<open>j\<close>, at \<^verbatim>\<open>printResult(<-weatherChan)\<close>,
    receives what goroutine \<open>i\<close> sends on \<^verbatim>\<open>weatherChan\<close>.
\<close>

datatype event =
    CmdRecv
  | ReaderIdle
  | ReaderFatal
  | Enter nat world
  | Perform nat
  | MainRecv nat
  | HandlerRecv nat nat

definition enter :: "system \<Rightarrow> nat \<Rightarrow> world \<Rightarrow> system option" where
  "enter s i w =
     (if i < length (goroutines s) then
        (case goroutines s ! i of
           HandleCommandNew input \<Rightarrow>
             (case handleCommand w (config s) input of
                (cfg', effects) \<Rightarrow>
                  Some (s\<lparr>config := cfg',
                          goroutines := (goroutines s)[i := HandleCommandAt effects]\<rparr>))
         | FetchWeatherNew c \<Rightarrow>
             Some (s\<lparr>goroutines :=
                       (goroutines s)[i := FetchWeatherAt (fetchWeather w (config s) c)]\<rparr>)
         | HandleCommandAt es \<Rightarrow> None
         | FetchWeatherAt es \<Rightarrow> None)
      else None)"

definition perform :: "system \<Rightarrow> nat \<Rightarrow> system option" where
  "perform s i =
     (if i < length (goroutines s) then
        (case nextEffect (goroutines s ! i) of
           Some (Print x) \<Rightarrow>
             Some (s\<lparr>stdout := stdout s @ [x],
                     goroutines := (goroutines s)[i := advance (goroutines s ! i)]\<rparr>)
         | Some (WriteConfig c) \<Rightarrow>
             Some (s\<lparr>written := written s @ [c],
                     goroutines := (goroutines s)[i := advance (goroutines s ! i)]\<rparr>)
         | Some (GoFetchWeather c) \<Rightarrow>
             Some (s\<lparr>goroutines :=
                       (goroutines s)[i := advance (goroutines s ! i)] @ [FetchWeatherNew c]\<rparr>)
         | Some (SendError e) \<Rightarrow> None
         | Some (SendWeather r) \<Rightarrow> None
         | Some RecvWeatherPrint \<Rightarrow> None
         | None \<Rightarrow> None)
      else None)"

definition mainRecv :: "system \<Rightarrow> nat \<Rightarrow> system option" where
  "mainRecv s i =
     (if i < length (goroutines s) then
        (case nextEffect (goroutines s ! i) of
           Some (SendError err) \<Rightarrow>
             Some (s\<lparr>stdout := stdout s @ [Println err, Prompt],
                     goroutines := (goroutines s)[i := advance (goroutines s ! i)]\<rparr>)
         | Some (SendWeather res) \<Rightarrow>
             Some (s\<lparr>stdout := stdout s @ [PrintResult res, Prompt],
                     goroutines := (goroutines s)[i := advance (goroutines s ! i)]\<rparr>)
         | Some (Print x) \<Rightarrow> None
         | Some (WriteConfig c) \<Rightarrow> None
         | Some (GoFetchWeather c) \<Rightarrow> None
         | Some RecvWeatherPrint \<Rightarrow> None
         | None \<Rightarrow> None)
      else None)"

definition handlerRecv :: "system \<Rightarrow> nat \<Rightarrow> nat \<Rightarrow> system option" where
  "handlerRecv s i j =
     (if i < length (goroutines s) \<and> j < length (goroutines s) \<and> i \<noteq> j
         \<and> nextEffect (goroutines s ! j) = Some RecvWeatherPrint then
        (case nextEffect (goroutines s ! i) of
           Some (SendWeather res) \<Rightarrow>
             Some (s\<lparr>stdout := stdout s @ [PrintResult res],
                     goroutines := (goroutines s)[i := advance (goroutines s ! i),
                                                  j := advance (goroutines s ! j)]\<rparr>)
         | Some (SendError err) \<Rightarrow> None
         | Some (Print x) \<Rightarrow> None
         | Some (WriteConfig c) \<Rightarrow> None
         | Some (GoFetchWeather c) \<Rightarrow> None
         | Some RecvWeatherPrint \<Rightarrow> None
         | None \<Rightarrow> None)
      else None)"

text \<open>One event; \<open>None\<close> when it cannot happen in this state. Nothing happens after
  \<^verbatim>\<open>log.Fatal\<close>.\<close>

definition step :: "system \<Rightarrow> event \<Rightarrow> system option" where
  "step s ev =
     (if exited s \<noteq> None then None
      else
        case ev of
          CmdRecv \<Rightarrow>
            (case handleInputIter (stdinLines s) (stdinEnd s) of
               Forward input \<Rightarrow>
                 Some (s\<lparr>stdinLines := tl (stdinLines s),
                         goroutines := goroutines s @ [HandleCommandNew input],
                         stdout := stdout s @ [Prompt]\<rparr>)
             | Idle \<Rightarrow> None
             | Fatal m \<Rightarrow> None)
        | ReaderIdle \<Rightarrow>
            (case handleInputIter (stdinLines s) (stdinEnd s) of
               Idle \<Rightarrow> Some s
             | Forward input \<Rightarrow> None
             | Fatal m \<Rightarrow> None)
        | ReaderFatal \<Rightarrow>
            (case handleInputIter (stdinLines s) (stdinEnd s) of
               Fatal m \<Rightarrow> Some (s\<lparr>exited := Some m\<rparr>)
             | Forward input \<Rightarrow> None
             | Idle \<Rightarrow> None)
        | Enter i w \<Rightarrow> enter s i w
        | Perform i \<Rightarrow> perform s i
        | MainRecv i \<Rightarrow> mainRecv s i
        | HandlerRecv i j \<Rightarrow> handlerRecv s i j)"

fun exec :: "system \<Rightarrow> event list \<Rightarrow> system option" where
  "exec s [] = Some s"
| "exec s (ev # evs) = (case step s ev of None \<Rightarrow> None | Some s' \<Rightarrow> exec s' evs)"

subsection \<open>Counting\<close>

text \<open>A call of \<^verbatim>\<open>handleCommand\<close> that has begun or is about to, and has not
  returned.\<close>

fun activeHandler :: "goroutine \<Rightarrow> bool" where
  "activeHandler (HandleCommandNew input) = True"
| "activeHandler (HandleCommandAt es) = (es \<noteq> [])"
| "activeHandler g = False"

definition activeHandlers :: "system \<Rightarrow> nat" where
  "activeHandlers s = length (filter activeHandler (goroutines s))"

fun isSend :: "effect \<Rightarrow> bool" where
  "isSend (SendError e) = True"
| "isSend (SendWeather r) = True"
| "isSend e = False"

fun isGo :: "effect \<Rightarrow> bool" where
  "isGo (GoFetchWeather c) = True"
| "isGo e = False"

fun isFetch :: "goroutine \<Rightarrow> bool" where
  "isFetch (FetchWeatherNew c) = True"
| "isFetch (FetchWeatherAt es) = True"
| "isFetch g = False"

text \<open>The outcomes a \<^verbatim>\<open>fetchWeather\<close> goroutine has still to deliver.\<close>

fun pendingOutcomes :: "goroutine \<Rightarrow> nat" where
  "pendingOutcomes (FetchWeatherNew c) = 1"
| "pendingOutcomes (FetchWeatherAt es) = length (filter isSend es)"
| "pendingOutcomes g = 0"

definition inFlight :: "system \<Rightarrow> nat" where
  "inFlight s = sum_list (map pendingOutcomes (goroutines s))"

text \<open>Whether the event starts a \<^verbatim>\<open>fetchWeather\<close> goroutine, and whether it
  delivers the outcome of one to a receiver, which prints it.\<close>

definition issuedBy :: "system \<Rightarrow> event \<Rightarrow> nat" where
  "issuedBy s ev =
     (case ev of
        Perform i \<Rightarrow>
          (case nextEffect (goroutines s ! i) of
             Some (GoFetchWeather c) \<Rightarrow> 1
           | _ \<Rightarrow> 0)
      | _ \<Rightarrow> 0)"

definition deliveredBy :: "system \<Rightarrow> event \<Rightarrow> nat" where
  "deliveredBy s ev =
     (case ev of
        MainRecv i \<Rightarrow> (if isFetch (goroutines s ! i) then 1 else 0)
      | HandlerRecv i j \<Rightarrow> (if isFetch (goroutines s ! i) then 1 else 0)
      | _ \<Rightarrow> 0)"

fun issued :: "system \<Rightarrow> event list \<Rightarrow> nat" where
  "issued s [] = 0"
| "issued s (ev # evs) =
     issuedBy s ev + (case step s ev of None \<Rightarrow> 0 | Some s' \<Rightarrow> issued s' evs)"

fun delivered :: "system \<Rightarrow> event list \<Rightarrow> nat" where
  "delivered s [] = 0"
| "delivered s (ev # evs) =
     deliveredBy s ev + (case step s ev of None \<Rightarrow> 0 | Some s' \<Rightarrow> delivered s' evs)"

section \<open>Example inputs\<close>

definition paris :: Location where
  "paris = \<lparr>City = ''Paris'', Country = ''FR'',
             Coordinates = \<lparr>Lat = 0x42436C8B, Lon = 0x40168F5C\<rparr>\<rparr>"

definition rome :: Location where
  "rome = \<lparr>City = ''Rome'', Country = ''IT'',
            Coordinates = \<lparr>Lat = 0x42279168, Lon = 0x4147B021\<rparr>\<rparr>"

definition newYork :: Location where
  "newYork = \<lparr>City = ''New York'', Country = ''US'',
               Coordinates = \<lparr>Lat = 0x4222D9E8, Lon = 0xC2940312\<rparr>\<rparr>"

definition cfgNone :: Config where
  "cfgNone = \<lparr>Language = ''en'', Units = ''metric'', Favourites = []\<rparr>"

definition cfgTwo :: Config where
  "cfgTwo = \<lparr>Language = ''en'', Units = ''metric'', Favourites = [paris, rome]\<rparr>"

definition clearSky :: WeatherResponse where
  "clearSky = \<lparr>WeatherDetails = [''clear sky''], TemperaturesTemp = 0x41A00000,
                TemperaturesFeelsLike = 0x41980000, ResponseCity = ''Paris'',
                LocationDetailsCountry = ''FR''\<rparr>"

text \<open>A provider that knows Paris, answers \<open>New York\<close> to the query \<open>nyc\<close>, and
  nothing else; the weather is always there and the file system works.\<close>

definition worldOk :: world where
  "worldOk =
     \<lparr>geoData = (\<lambda>city country.
          if city = ''paris''
          then Inr [\<lparr>Name = ''Paris'', GeoLat = 0x42436C8B, GeoLon = 0x40168F5C,
                     GeoCountry = ''FR''\<rparr>]
          else if city = ''nyc''
          then Inr [\<lparr>Name = ''New York'', GeoLat = 0x4222D9E8, GeoLon = 0xC2940312,
                     GeoCountry = ''US''\<rparr>]
          else Inr []),
      weatherData = (\<lambda>coordinates language. Inr clearSky),
      marshalErr = (\<lambda>c. None),
      writeErr = (\<lambda>c. None)\<rparr>"

text \<open>The same with a file system that refuses every write, and with a weather
  service that cannot be reached.\<close>

definition worldDiskFull :: world where
  "worldDiskFull = worldOk\<lparr>writeErr := (\<lambda>c. Some ''no space left on device'')\<rparr>"

definition worldWeatherDown :: world where
  "worldWeatherDown =
     worldOk\<lparr>weatherData := (\<lambda>coordinates language. Inl ''Failed to fetch data: timeout'')\<rparr>"

definition startupOk :: startup where
  "startupOk = \<lparr>readFile = FileData cfgNone, createMarshalErr = None, createWriteErr = None\<rparr>"

definition startupTwo :: startup where
  "startupTwo = \<lparr>readFile = FileData cfgTwo, createMarshalErr = None, createWriteErr = None\<rparr>"


section \<open>Properties\<close>

subsection \<open>Strings and loops\<close>














lemmas ToLower_eval = ToLower_def toLowerByte_def char_of_def bit_Suc_0_iff

subsection \<open>The command f\<close>



subsection \<open>The commands fav and remove\<close>

lemma handleCommand_fav:
  assumes "2 \<le> length input" and "ToLower (input ! 0) = ''fav''"
  shows "handleCommand w cfg input =
     (case addFavourite w cfg (ToLower (input ! 1))
             (if length input > 2 then ToLower (input ! 2) else []) of
        (cfg', effects, err) \<Rightarrow>
          (cfg', Print (Println []) # effects
                 @ (case err of None \<Rightarrow> [] | Some e \<Rightarrow> [SendError e])))"
proof -
  from assms(1) have "length input \<noteq> 0" "1 < length input" "\<not> length input < 2"
    by auto
  then show ?thesis
    using assms(2) by (simp add: handleCommand_def Let_def)
qed

lemma handleCommand_remove:
  assumes "input \<noteq> []" and "ToLower (input ! 0) = ''remove''"
  shows "handleCommand w cfg input =
     (case removeFavourite w cfg (if length input > 1 then ToLower (input ! 1) else []) of
        (cfg', effects, err) \<Rightarrow>
          (cfg', Print (Println []) # effects
                 @ (case err of None \<Rightarrow> [] | Some e \<Rightarrow> [SendError e])))"
  using assms by (simp add: handleCommand_def Let_def)







lemmas handler_eval =
  handleCommand_def Let_def addFavourite_def addFavouriteExists.simps removeFavourite_def
  removeFavouriteIndex.simps fetchLocationData_def getWeatherByCity_def fetchFavourites_def
  fetchFavouritesLoop.simps listFavourites_def listFavouritesLoop.simps

lemmas example_defs =
  worldOk_def worldDiskFull_def worldWeatherDown_def cfgNone_def cfgTwo_def paris_def rome_def
  clearSky_def newYork_def

lemma fav_nyc_first:
  "handleCommand worldOk cfgNone [''fav'', ''nyc''] =
     (cfgNone\<lparr>Favourites := [newYork]\<rparr>,
      [Print (Println []), WriteConfig (cfgNone\<lparr>Favourites := [newYork]\<rparr>),
       Print (Printf (''New location New York, US added to favourites'' @ [CHR 0x0A]))])"
  by (simp add: handler_eval ToLower_eval example_defs newYork_def)











subsection \<open>The input reader\<close>











lemma handleInput_eof: "snd (handleInput n ls EOF) = None"
proof (induction n arbitrary: ls)
  case 0
  show ?case by simp
next
  case (Suc n)
  show ?case
  proof (cases ls)
    case Nil
    with Suc [of "[]"] show ?thesis
      by (simp add: handleInputIter_def)
  next
    case (Cons l rest)
    with Suc [of rest] show ?thesis
      by (cases "handleInput n rest EOF") (simp add: handleInputIter_def)
  qed
qed






subsection \<open>Fatal conditions\<close>





lemma step_running: "step s ev = Some s' \<Longrightarrow> exited s = None"
  by (simp add: step_def split: if_splits)








subsection \<open>Goroutines: who changes config\<close>

lemma addFavourite_config:
  "addFavourite w cfg city country = (cfg', effects, err)
     \<Longrightarrow> \<exists>favourites. cfg' = cfg\<lparr>Favourites := favourites\<rparr>"
proof -
  have same: "\<exists>favourites. cfg = cfg\<lparr>Favourites := favourites\<rparr>"
    by (rule exI [of _ "Favourites cfg"]) simp
  assume "addFavourite w cfg city country = (cfg', effects, err)"
  then show ?thesis
    using same
    by (auto simp: addFavourite_def Let_def split: if_splits sum.splits option.splits)
qed

lemma removeFavourite_config:
  "removeFavourite w cfg city = (cfg', effects, err)
     \<Longrightarrow> \<exists>favourites. cfg' = cfg\<lparr>Favourites := favourites\<rparr>"
proof -
  have same: "\<exists>favourites. cfg = cfg\<lparr>Favourites := favourites\<rparr>"
    by (rule exI [of _ "Favourites cfg"]) simp
  assume "removeFavourite w cfg city = (cfg', effects, err)"
  then show ?thesis
    using same
    by (auto simp: removeFavourite_def Let_def split: if_splits option.splits)
qed

lemma handleCommand_config:
  assumes "handleCommand w cfg input = (cfg', effects)" and "cfg' \<noteq> cfg"
  shows "input \<noteq> [] \<and> (ToLower (input ! 0) = ''fav'' \<or> ToLower (input ! 0) = ''remove'')
         \<and> (\<exists>favourites. cfg' = cfg\<lparr>Favourites := favourites\<rparr>)"
proof -
  from assms have ne: "input \<noteq> []"
    by (auto simp: handleCommand_def)
  have verb: "ToLower (input ! 0) = ''fav'' \<or> ToLower (input ! 0) = ''remove''"
  proof (rule ccontr)
    assume "\<not> ?thesis"
    with ne have "fst (handleCommand w cfg input) = cfg"
      by (simp add: handleCommand_def Let_def)
    with assms show False by simp
  qed
  from verb have "\<exists>favourites. cfg' = cfg\<lparr>Favourites := favourites\<rparr>"
  proof
    assume v: "ToLower (input ! 0) = ''fav''"
    show ?thesis
    proof (cases "length input < 2")
      case True
      with v ne assms show ?thesis
        by (simp add: handleCommand_def Let_def)
    next
      case False
      then have "2 \<le> length input" by simp
      from handleCommand_fav [OF this v, of w cfg] assms(1) show ?thesis
        by (auto split: prod.splits dest: addFavourite_config)
    qed
  next
    assume v: "ToLower (input ! 0) = ''remove''"
    from handleCommand_remove [OF ne v, of w cfg] assms(1) show ?thesis
      by (auto split: prod.splits dest: removeFavourite_config)
  qed
  with ne verb show ?thesis by blast
qed

lemma step_config:
  assumes "step s ev = Some s'" and "config s' \<noteq> config s"
  shows "\<exists>i w input. ev = Enter i w \<and> i < length (goroutines s)
           \<and> goroutines s ! i = HandleCommandNew input \<and> input \<noteq> []
           \<and> (ToLower (input ! 0) = ''fav'' \<or> ToLower (input ! 0) = ''remove'')
           \<and> (\<exists>favourites. config s' = (config s)\<lparr>Favourites := favourites\<rparr>)"
proof (cases ev)
  case CmdRecv
  with assms show ?thesis
    by (auto simp: step_def split: if_splits readerStep.splits)
next
  case ReaderIdle
  with assms show ?thesis
    by (auto simp: step_def split: if_splits readerStep.splits)
next
  case ReaderFatal
  with assms show ?thesis
    by (auto simp: step_def split: if_splits readerStep.splits)
next
  case (Enter k w)
  with assms have k: "k < length (goroutines s)" and e: "enter s k w = Some s'"
    by (auto simp: step_def enter_def split: if_splits)
  from e k assms(2) obtain input effects where
    g: "goroutines s ! k = HandleCommandNew input"
    and h: "handleCommand w (config s) input = (config s', effects)"
    by (auto simp: enter_def split: goroutine.splits prod.splits)
  from handleCommand_config [OF h assms(2)] g k Enter show ?thesis
    by blast
next
  case (Perform k)
  with assms show ?thesis
    by (auto simp: step_def perform_def split: if_splits option.splits effect.splits)
next
  case (MainRecv k)
  with assms show ?thesis
    by (auto simp: step_def mainRecv_def split: if_splits option.splits effect.splits)
next
  case (HandlerRecv k j)
  with assms show ?thesis
    by (auto simp: step_def handlerRecv_def split: if_splits option.splits effect.splits)
qed

lemma exec_two_commands:
  assumes "exited s = None" and "stdinLines s = l1 # l2 # rest"
  shows "exec s [CmdRecv, CmdRecv] =
           Some (s\<lparr>stdinLines := rest,
                   goroutines := goroutines s
                                 @ [HandleCommandNew (Fields l1), HandleCommandNew (Fields l2)],
                   stdout := stdout s @ [Prompt, Prompt]\<rparr>)"
  using assms by (simp add: step_def handleInputIter_def)

lemmas system_eval =
  step_def enter_def perform_def mainRecv_def handlerRecv_def handleInputIter_def
  mainStart_def readConfigFile_def fetchWeather_def Fields_def asciiSpace_def

lemma run_w_fav:
  "exec (mainStart startupOk [''w paris'', ''fav nyc''] EOF)
     [CmdRecv, Enter 0 worldOk, Perform 0, Perform 0, CmdRecv] =
   Some \<lparr>config = cfgNone, written = [],
         stdout = [PrintCommands, Prompt, Prompt, Println [], Prompt],
         stdinLines = [], stdinEnd = EOF,
         goroutines = [HandleCommandAt [RecvWeatherPrint],
                       FetchWeatherNew \<lparr>Lat = 0x42436C8B, Lon = 0x40168F5C\<rparr>,
                       HandleCommandNew [''fav'', ''nyc'']],
         exited = None\<rparr>"
  by (simp add: system_eval handler_eval ToLower_eval example_defs startupOk_def)

text \<open>
  C1, as amended. The loop of \<^verbatim>\<open>main\<close> handles one event in each iteration, and for
  a command it only starts a goroutine that runs \<^verbatim>\<open>handleCommand\<close>: it goes on to
  its next \<^verbatim>\<open>select\<close> without waiting, so that with two lines ready two commands are
  taken one after the other and both handlers are started. The steps of the loop itself
  and the \<^verbatim>\<open>fetchWeather\<close> goroutines never change \<^verbatim>\<open>config\<close>: whenever an event
  changes it, the event is the run of a \<^verbatim>\<open>handleCommand\<close> goroutine whose verb is
  \<open>fav\<close> or \<open>remove\<close>, and only Favourites changes.
\<close>

theorem config_changes_only_in_command_goroutines:
  "(\<forall>s ev s'. step s ev = Some s' \<and> config s' \<noteq> config s \<longrightarrow>
      (\<exists>i w input. ev = Enter i w \<and> i < length (goroutines s)
           \<and> goroutines s ! i = HandleCommandNew input \<and> input \<noteq> []
           \<and> (ToLower (input ! 0) = ''fav'' \<or> ToLower (input ! 0) = ''remove'')
           \<and> (\<exists>favourites. config s' = (config s)\<lparr>Favourites := favourites\<rparr>)))
   \<and> (\<forall>s l1 l2 rest. exited s = None \<and> stdinLines s = l1 # l2 # rest \<longrightarrow>
        exec s [CmdRecv, CmdRecv] =
           Some (s\<lparr>stdinLines := rest,
                   goroutines := goroutines s
                                 @ [HandleCommandNew (Fields l1), HandleCommandNew (Fields l2)],
                   stdout := stdout s @ [Prompt, Prompt]\<rparr>))"
proof -
  have f1: "\<forall>s ev s'. step s ev = Some s' \<and> config s' \<noteq> config s \<longrightarrow>
      (\<exists>i w input. ev = Enter i w \<and> i < length (goroutines s)
           \<and> goroutines s ! i = HandleCommandNew input \<and> input \<noteq> []
           \<and> (ToLower (input ! 0) = ''fav'' \<or> ToLower (input ! 0) = ''remove'')
           \<and> (\<exists>favourites. config s' = (config s)\<lparr>Favourites := favourites\<rparr>))"
    using step_config by blast
  have f2: "\<forall>s l1 l2 rest. exited s = None \<and> stdinLines s = l1 # l2 # rest \<longrightarrow>
        exec s [CmdRecv, CmdRecv] =
           Some (s\<lparr>stdinLines := rest,
                   goroutines := goroutines s
                                 @ [HandleCommandNew (Fields l1), HandleCommandNew (Fields l2)],
                   stdout := stdout s @ [Prompt, Prompt]\<rparr>)"
    using exec_two_commands by blast
  show ?thesis
    by (intro conjI f1 f2)
qed

theorem config_changes_only_in_command_goroutines_witness:
  "step \<lparr>config = cfgNone, written = [],
         stdout = [PrintCommands, Prompt, Prompt, Println [], Prompt],
         stdinLines = [], stdinEnd = EOF,
         goroutines = [HandleCommandAt [RecvWeatherPrint],
                       FetchWeatherNew \<lparr>Lat = 0x42436C8B, Lon = 0x40168F5C\<rparr>,
                       HandleCommandNew [''fav'', ''nyc'']],
         exited = None\<rparr> (Enter 2 worldOk) =
   Some \<lparr>config = cfgNone\<lparr>Favourites := [newYork]\<rparr>, written = [],
         stdout = [PrintCommands, Prompt, Prompt, Println [], Prompt],
         stdinLines = [], stdinEnd = EOF,
         goroutines = [HandleCommandAt [RecvWeatherPrint],
                       FetchWeatherNew \<lparr>Lat = 0x42436C8B, Lon = 0x40168F5C\<rparr>,
                       HandleCommandAt
                        [Print (Println []), WriteConfig (cfgNone\<lparr>Favourites := [newYork]\<rparr>),
                         Print (Printf (''New location New York, US added to favourites''
                                        @ [CHR 0x0A]))]],
         exited = None\<rparr>
   \<and> cfgNone\<lparr>Favourites := [newYork]\<rparr> \<noteq> cfgNone
   \<and> ToLower ([''fav'', ''nyc''] ! 0) = ''fav''"
proof -
  let ?s = "\<lparr>config = cfgNone, written = [],
         stdout = [PrintCommands, Prompt, Prompt, Println [], Prompt],
         stdinLines = [], stdinEnd = EOF,
         goroutines = [HandleCommandAt [RecvWeatherPrint],
                       FetchWeatherNew \<lparr>Lat = 0x42436C8B, Lon = 0x40168F5C\<rparr>,
                       HandleCommandNew [''fav'', ''nyc'']],
         exited = None\<rparr>"
  let ?s' = "\<lparr>config = cfgNone\<lparr>Favourites := [newYork]\<rparr>, written = [],
         stdout = [PrintCommands, Prompt, Prompt, Println [], Prompt],
         stdinLines = [], stdinEnd = EOF,
         goroutines = [HandleCommandAt [RecvWeatherPrint],
                       FetchWeatherNew \<lparr>Lat = 0x42436C8B, Lon = 0x40168F5C\<rparr>,
                       HandleCommandAt
                        [Print (Println []), WriteConfig (cfgNone\<lparr>Favourites := [newYork]\<rparr>),
                         Print (Printf (''New location New York, US added to favourites''
                                        @ [CHR 0x0A]))]],
         exited = None\<rparr>"
  have st: "step ?s (Enter 2 worldOk) = Some ?s'"
    by (simp add: step_def enter_def fav_nyc_first)
  have ne: "config ?s' \<noteq> config ?s"
    by (simp add: cfgNone_def)
  from config_changes_only_in_command_goroutines
    [THEN conjunct1, rule_format, OF conjI [OF st ne]]
  obtain i w input where "Enter 2 worldOk = Enter i w" and "goroutines ?s ! i = HandleCommandNew input"
    and "ToLower (input ! 0) = ''fav'' \<or> ToLower (input ! 0) = ''remove''"
    by blast
  then have "ToLower ([''fav'', ''nyc''] ! 0) = ''fav'' \<or> ToLower ([''fav'', ''nyc''] ! 0) = ''remove''"
    by simp
  then have "ToLower ([''fav'', ''nyc''] ! 0) = ''fav''"
    by (simp add: ToLower_eval)
  with st ne show ?thesis by simp
qed

text \<open>
  The claim as it stands fails: after \<open>w paris\<close> and \<open>fav nyc\<close>, \<^verbatim>\<open>main\<close> has
  taken the second command while the call of \<^verbatim>\<open>handleCommand\<close> for the first has not
  returned (it waits at \<^verbatim>\<open>printResult(<-weatherChan)\<close>); two calls are under way, and
  Favourites is changed by the goroutine of the second, not by an iteration of the
  loop.
\<close>

theorem handlers_overlap_counterexample:
  "map_option activeHandlers
     (exec (mainStart startupOk [''w paris'', ''fav nyc''] EOF)
        [CmdRecv, Enter 0 worldOk, Perform 0, Perform 0, CmdRecv]) = Some 2
   \<and> map_option config
     (exec (mainStart startupOk [''w paris'', ''fav nyc''] EOF)
        [CmdRecv, Enter 0 worldOk, Perform 0, Perform 0, CmdRecv]) = Some cfgNone
   \<and> map_option config
     (exec (mainStart startupOk [''w paris'', ''fav nyc''] EOF)
        [CmdRecv, Enter 0 worldOk, Perform 0, Perform 0, CmdRecv, Enter 2 worldOk])
       = Some (cfgNone\<lparr>Favourites := [newYork]\<rparr>)
   \<and> map_option activeHandlers
     (exec (mainStart startupOk [''w paris'', ''fav nyc''] EOF)
        [CmdRecv, Enter 0 worldOk, Perform 0, Perform 0, CmdRecv, Enter 2 worldOk]) = Some 2"
  by (simp add: activeHandlers_def system_eval handler_eval ToLower_eval example_defs
        startupOk_def)

subsection \<open>Outcomes of fetchWeather\<close>

lemma fetchWeather_one_send:
  "length (fetchWeather w cfg c) = 1
   \<and> ((\<exists>res. fetchWeather w cfg c = [SendWeather res])
      \<or> (\<exists>err. fetchWeather w cfg c = [SendError err]))"
  by (simp add: fetchWeather_def split: sum.split)

lemma fetchWeather_pending: "length (filter isSend (fetchWeather w cfg c)) = 1"
  by (simp add: fetchWeather_def split: sum.split)

lemma sum_list_map_update:
  fixes f :: "'a \<Rightarrow> nat"
  shows "i < length xs \<Longrightarrow>
           sum_list (map f (xs[i := y])) + f (xs ! i) = sum_list (map f xs) + f y"
proof (induction xs arbitrary: i)
  case Nil
  then show ?case by simp
next
  case (Cons x xs)
  show ?case
  proof (cases i)
    case 0
    then show ?thesis by simp
  next
    case (Suc k)
    with Cons.prems have "k < length xs" by simp
    from Cons.IH [OF this] Suc show ?thesis by simp
  qed
qed

lemma pending_advance_send:
  "nextEffect g = Some e \<Longrightarrow> isSend e \<Longrightarrow>
     pendingOutcomes (advance g) + (if isFetch g then 1 else 0) = pendingOutcomes g"
  by (cases g rule: nextEffect.cases) auto

lemma pending_advance_other:
  "nextEffect g = Some e \<Longrightarrow> \<not> isSend e \<Longrightarrow> pendingOutcomes (advance g) = pendingOutcomes g"
  by (cases g rule: nextEffect.cases) auto

lemma inFlight_update:
  "i < length (goroutines s) \<Longrightarrow>
     inFlight (s\<lparr>goroutines := (goroutines s)[i := g]\<rparr>) + pendingOutcomes (goroutines s ! i)
       = inFlight s + pendingOutcomes g"
  by (simp add: inFlight_def sum_list_map_update)

lemma pending_list_same:
  assumes "i < length gs" and "pendingOutcomes g = pendingOutcomes (gs ! i)"
  shows "sum_list (map pendingOutcomes (gs[i := g])) = sum_list (map pendingOutcomes gs)"
  using sum_list_map_update [OF assms(1), of pendingOutcomes g] assms(2) by simp

lemma pending_list_advance_other:
  assumes "i < length gs" and "nextEffect (gs ! i) = Some e" and "\<not> isSend e"
  shows "sum_list (map pendingOutcomes (gs[i := advance (gs ! i)]))
           = sum_list (map pendingOutcomes gs)"
  using assms by (intro pending_list_same) (simp_all add: pending_advance_other)

lemma pending_list_advance_send:
  assumes "i < length gs" and "nextEffect (gs ! i) = Some e" and "isSend e"
  shows "sum_list (map pendingOutcomes (gs[i := advance (gs ! i)]))
           + (if isFetch (gs ! i) then 1 else 0)
           = sum_list (map pendingOutcomes gs)"
  using sum_list_map_update [OF assms(1), of pendingOutcomes "advance (gs ! i)"]
    pending_advance_send [OF assms(2,3)]
  by simp

lemma step_count:
  assumes "step s ev = Some s'"
  shows "inFlight s + issuedBy s ev = inFlight s' + deliveredBy s ev"
proof (cases ev)
  case CmdRecv
  with assms show ?thesis
    by (auto simp: step_def inFlight_def issuedBy_def deliveredBy_def
             split: if_splits readerStep.splits)
next
  case ReaderIdle
  with assms show ?thesis
    by (auto simp: step_def inFlight_def issuedBy_def deliveredBy_def
             split: if_splits readerStep.splits)
next
  case ReaderFatal
  with assms show ?thesis
    by (auto simp: step_def inFlight_def issuedBy_def deliveredBy_def
             split: if_splits readerStep.splits)
next
  case (Enter k w)
  with assms have k: "k < length (goroutines s)" and e: "enter s k w = Some s'"
    by (auto simp: step_def enter_def split: if_splits)
  from e k obtain g where g: "goroutines s' = (goroutines s)[k := g]"
      "pendingOutcomes g = pendingOutcomes (goroutines s ! k)"
    by (auto simp: enter_def fetchWeather_pending split: goroutine.splits prod.splits)
  with k Enter show ?thesis
    by (simp add: inFlight_def issuedBy_def deliveredBy_def pending_list_same)
next
  case (Perform k)
  with assms have k: "k < length (goroutines s)" and p: "perform s k = Some s'"
    by (auto simp: step_def perform_def split: if_splits)
  from p k obtain e where e: "nextEffect (goroutines s ! k) = Some e" "\<not> isSend e"
    by (auto simp: perform_def split: option.splits effect.splits)
  note adv = pending_list_advance_other [OF k e]
  show ?thesis
  proof (cases "isGo e")
    case True
    then obtain c where c: "e = GoFetchWeather c" by (cases e) auto
    with p k e have "goroutines s' =
        (goroutines s)[k := advance (goroutines s ! k)] @ [FetchWeatherNew c]"
      by (auto simp: perform_def)
    with adv c e Perform show ?thesis
      by (simp add: inFlight_def issuedBy_def deliveredBy_def)
  next
    case False
    with p k e have "goroutines s' = (goroutines s)[k := advance (goroutines s ! k)]"
      by (auto simp: perform_def split: effect.splits)
    moreover from False e have "issuedBy s ev = 0"
      by (cases e) (auto simp: issuedBy_def Perform)
    ultimately show ?thesis
      using adv Perform by (simp add: inFlight_def deliveredBy_def)
  qed
next
  case (MainRecv k)
  with assms have k: "k < length (goroutines s)" and m: "mainRecv s k = Some s'"
    by (auto simp: step_def mainRecv_def split: if_splits)
  from m k obtain e where e: "nextEffect (goroutines s ! k) = Some e" "isSend e"
    by (auto simp: mainRecv_def split: option.splits effect.splits)
  with m k have "goroutines s' = (goroutines s)[k := advance (goroutines s ! k)]"
    by (auto simp: mainRecv_def split: effect.splits)
  with pending_list_advance_send [OF k e] MainRecv show ?thesis
    by (simp add: inFlight_def issuedBy_def deliveredBy_def)
next
  case (HandlerRecv k j)
  let ?gs = "goroutines s"
  from HandlerRecv assms have h: "handlerRecv s k j = Some s'"
    by (auto simp: step_def split: if_splits)
  then have k: "k < length ?gs" and j: "j < length ?gs" and kj: "k \<noteq> j"
    and r: "nextEffect (?gs ! j) = Some RecvWeatherPrint"
    by (auto simp: handlerRecv_def split: if_splits)
  from h k j kj r obtain res where e: "nextEffect (?gs ! k) = Some (SendWeather res)"
    by (auto simp: handlerRecv_def split: option.splits effect.splits)
  with h k j kj r have gs': "goroutines s' =
      ?gs[k := advance (?gs ! k), j := advance (?gs ! j)]"
    by (auto simp: handlerRecv_def)
  let ?gs1 = "?gs[k := advance (?gs ! k)]"
  have j1: "j < length ?gs1" "nextEffect (?gs1 ! j) = Some RecvWeatherPrint"
      "?gs1 ! j = ?gs ! j"
    using j kj r by simp_all
  from pending_list_advance_other [OF j1(1,2)] j1(3)
  have "sum_list (map pendingOutcomes (?gs1[j := advance (?gs ! j)]))
          = sum_list (map pendingOutcomes ?gs1)"
    by simp
  with pending_list_advance_send [OF k e] gs' HandlerRecv show ?thesis
    by (simp add: inFlight_def issuedBy_def deliveredBy_def)
qed

lemma exec_count:
  "exec s evs = Some s' \<Longrightarrow> inFlight s + issued s evs = inFlight s' + delivered s evs"
proof (induction evs arbitrary: s)
  case Nil
  then show ?case by simp
next
  case (Cons ev evs)
  from Cons.prems obtain s1 where s1: "step s ev = Some s1" and rest: "exec s1 evs = Some s'"
    by (auto split: option.splits)
  from step_count [OF s1] Cons.IH [OF rest] s1 show ?case
    by simp
qed

lemma mainStart_inFlight: "inFlight (mainStart su ls e) = 0"
  by (cases "readConfigFile su") (auto simp: mainStart_def inFlight_def split: option.splits)

lemma delivery_prints:
  assumes "step s ev = Some s'" and "deliveredBy s ev = 1"
  shows "\<exists>i. i < length (goroutines s) \<and> isFetch (goroutines s ! i)
           \<and> ((\<exists>res. nextEffect (goroutines s ! i) = Some (SendWeather res)
                  \<and> (stdout s' = stdout s @ [PrintResult res, Prompt]
                     \<or> stdout s' = stdout s @ [PrintResult res]))
               \<or> (\<exists>err. nextEffect (goroutines s ! i) = Some (SendError err)
                     \<and> stdout s' = stdout s @ [Println err, Prompt]))"
proof (cases ev)
  case (MainRecv k)
  with assms have "mainRecv s k = Some s'" and "isFetch (goroutines s ! k)"
    by (auto simp: step_def deliveredBy_def split: if_splits)
  then show ?thesis
    by (auto simp: mainRecv_def split: if_splits option.splits effect.splits)
next
  case (HandlerRecv k j)
  with assms have "handlerRecv s k j = Some s'" and "isFetch (goroutines s ! k)"
    by (auto simp: step_def deliveredBy_def split: if_splits)
  then show ?thesis
    by (auto simp: handlerRecv_def split: if_splits option.splits effect.splits)
qed (use assms in \<open>simp_all add: deliveredBy_def\<close>)

lemma fetch_progress:
  assumes "exited s = None" and "i < length (goroutines s)"
    and "goroutines s ! i = FetchWeatherNew c"
  shows "\<exists>s1 s2. step s (Enter i w) = Some s1
           \<and> goroutines s1 ! i = FetchWeatherAt (fetchWeather w (config s) c)
           \<and> step s1 (MainRecv i) = Some s2 \<and> deliveredBy s1 (MainRecv i) = 1
           \<and> goroutines s2 ! i = FetchWeatherAt []"
proof -
  let ?s1 = "s\<lparr>goroutines := (goroutines s)[i := FetchWeatherAt (fetchWeather w (config s) c)]\<rparr>"
  have s1: "step s (Enter i w) = Some ?s1"
    using assms by (simp add: step_def enter_def)
  have g1: "goroutines ?s1 ! i = FetchWeatherAt (fetchWeather w (config s) c)"
    using assms by simp
  from fetchWeather_one_send [of w "config s" c]
  consider res where "fetchWeather w (config s) c = [SendWeather res]"
    | err where "fetchWeather w (config s) c = [SendError err]"
    by blast
  then have "\<exists>s2. step ?s1 (MainRecv i) = Some s2 \<and> goroutines s2 ! i = FetchWeatherAt []"
  proof cases
    case 1
    with assms show ?thesis by (simp add: step_def mainRecv_def)
  next
    case 2
    with assms show ?thesis by (simp add: step_def mainRecv_def)
  qed
  moreover have "deliveredBy ?s1 (MainRecv i) = 1"
    using assms by (simp add: deliveredBy_def)
  ultimately show ?thesis
    using s1 g1 by blast
qed

lemma run_f:
  "exec (mainStart startupTwo [''f''] EOF)
     [CmdRecv, Enter 0 worldOk, Perform 0, Perform 0, Perform 0,
      Enter 2 worldWeatherDown, Enter 1 worldOk, MainRecv 2, MainRecv 1] =
   Some \<lparr>config = cfgTwo, written = [],
         stdout = [PrintCommands, Prompt, Prompt, Println [],
                   Println ''Failed to fetch data: timeout'', Prompt,
                   PrintResult \<lparr>Temperature = 0x41A00000, FeelsLike = 0x41980000,
                                Description = ''clear sky'', ResultCountry = ''FR'',
                                ResultCity = ''Paris''\<rparr>, Prompt],
         stdinLines = [], stdinEnd = EOF,
         goroutines = [HandleCommandAt [], FetchWeatherAt [], FetchWeatherAt []],
         exited = None\<rparr>"
  by (simp add: system_eval handler_eval ToLower_eval example_defs startupTwo_def)

text \<open>
  C2. A \<^verbatim>\<open>fetchWeather\<close> goroutine does exactly one thing: one send, of a result on
  \<^verbatim>\<open>weatherChan\<close> or of an error on \<^verbatim>\<open>errorChan\<close>. Along every run of the
  process, the goroutines started by \<^verbatim>\<open>go fetchWeather\<close> (\<open>issued\<close>) are those whose
  outcome a receiver has taken (\<open>delivered\<close>) and those with their outcome still to
  deliver (\<open>inFlight\<close>): from the start of \<^verbatim>\<open>main\<close>, when none is in flight, as many
  outcomes were delivered as goroutines were started. A delivery prints the outcome
  once: the receiver is the \<^verbatim>\<open>select\<close> of \<^verbatim>\<open>main\<close> or a handler at
  \<^verbatim>\<open>printResult(<-weatherChan)\<close>, and each appends the result, or the error, to the
  output. And while the process runs, a started goroutine can always run and hand its
  outcome to \<^verbatim>\<open>main\<close>.
\<close>

theorem every_fetch_outcome_printed_once:
  "length (fetchWeather w cfg c) = 1
   \<and> ((\<exists>res. fetchWeather w cfg c = [SendWeather res])
      \<or> (\<exists>err. fetchWeather w cfg c = [SendError err]))
   \<and> (\<forall>s evs s'. exec s evs = Some s' \<longrightarrow>
         inFlight s + issued s evs = inFlight s' + delivered s evs)
   \<and> (\<forall>evs s'. exec (mainStart su ls e) evs = Some s' \<and> inFlight s' = 0 \<longrightarrow>
         delivered (mainStart su ls e) evs = issued (mainStart su ls e) evs)
   \<and> (\<forall>s ev s'. step s ev = Some s' \<and> deliveredBy s ev = 1 \<longrightarrow>
         (\<exists>i. i < length (goroutines s) \<and> isFetch (goroutines s ! i)
           \<and> ((\<exists>res. nextEffect (goroutines s ! i) = Some (SendWeather res)
                  \<and> (stdout s' = stdout s @ [PrintResult res, Prompt]
                     \<or> stdout s' = stdout s @ [PrintResult res]))
               \<or> (\<exists>err. nextEffect (goroutines s ! i) = Some (SendError err)
                     \<and> stdout s' = stdout s @ [Println err, Prompt]))))
   \<and> (\<forall>s i c' w'. exited s = None \<and> i < length (goroutines s)
          \<and> goroutines s ! i = FetchWeatherNew c' \<longrightarrow>
        (\<exists>s1 s2. step s (Enter i w') = Some s1
           \<and> goroutines s1 ! i = FetchWeatherAt (fetchWeather w' (config s) c')
           \<and> step s1 (MainRecv i) = Some s2 \<and> deliveredBy s1 (MainRecv i) = 1
           \<and> goroutines s2 ! i = FetchWeatherAt []))"
proof -
  note one = fetchWeather_one_send [of w cfg c]
  have f3: "\<forall>s evs s'. exec s evs = Some s' \<longrightarrow>
         inFlight s + issued s evs = inFlight s' + delivered s evs"
    using exec_count by blast
  have f4: "\<forall>evs s'. exec (mainStart su ls e) evs = Some s' \<and> inFlight s' = 0 \<longrightarrow>
         delivered (mainStart su ls e) evs = issued (mainStart su ls e) evs"
  proof (intro allI impI)
    fix evs s'
    assume a: "exec (mainStart su ls e) evs = Some s' \<and> inFlight s' = 0"
    with exec_count [of "mainStart su ls e" evs s'] mainStart_inFlight [of su ls e]
    show "delivered (mainStart su ls e) evs = issued (mainStart su ls e) evs"
      by simp
  qed
  have f5: "\<forall>s ev s'. step s ev = Some s' \<and> deliveredBy s ev = 1 \<longrightarrow>
         (\<exists>i. i < length (goroutines s) \<and> isFetch (goroutines s ! i)
           \<and> ((\<exists>res. nextEffect (goroutines s ! i) = Some (SendWeather res)
                  \<and> (stdout s' = stdout s @ [PrintResult res, Prompt]
                     \<or> stdout s' = stdout s @ [PrintResult res]))
               \<or> (\<exists>err. nextEffect (goroutines s ! i) = Some (SendError err)
                     \<and> stdout s' = stdout s @ [Println err, Prompt])))"
    using delivery_prints by blast
  have f6: "\<forall>s i c' w'. exited s = None \<and> i < length (goroutines s)
          \<and> goroutines s ! i = FetchWeatherNew c' \<longrightarrow>
        (\<exists>s1 s2. step s (Enter i w') = Some s1
           \<and> goroutines s1 ! i = FetchWeatherAt (fetchWeather w' (config s) c')
           \<and> step s1 (MainRecv i) = Some s2 \<and> deliveredBy s1 (MainRecv i) = 1
           \<and> goroutines s2 ! i = FetchWeatherAt [])"
    using fetch_progress by blast
  show ?thesis
    by (intro conjI one [THEN conjunct1] one [THEN conjunct2] f3 f4 f5 f6)
qed

theorem every_fetch_outcome_printed_once_witness:
  "exec (mainStart startupTwo [''f''] EOF)
     [CmdRecv, Enter 0 worldOk, Perform 0, Perform 0, Perform 0,
      Enter 2 worldWeatherDown, Enter 1 worldOk, MainRecv 2, MainRecv 1] \<noteq> None
   \<and> issued (mainStart startupTwo [''f''] EOF)
       [CmdRecv, Enter 0 worldOk, Perform 0, Perform 0, Perform 0,
        Enter 2 worldWeatherDown, Enter 1 worldOk, MainRecv 2, MainRecv 1] = 2
   \<and> delivered (mainStart startupTwo [''f''] EOF)
       [CmdRecv, Enter 0 worldOk, Perform 0, Perform 0, Perform 0,
        Enter 2 worldWeatherDown, Enter 1 worldOk, MainRecv 2, MainRecv 1] = 2"
proof -
  let ?s = "mainStart startupTwo [''f''] EOF"
  let ?run = "[CmdRecv, Enter 0 worldOk, Perform 0, Perform 0, Perform 0,
      Enter 2 worldWeatherDown, Enter 1 worldOk, MainRecv 2, MainRecv 1]"
  let ?final = "\<lparr>config = cfgTwo, written = [],
         stdout = [PrintCommands, Prompt, Prompt, Println [],
                   Println ''Failed to fetch data: timeout'', Prompt,
                   PrintResult \<lparr>Temperature = 0x41A00000, FeelsLike = 0x41980000,
                                Description = ''clear sky'', ResultCountry = ''FR'',
                                ResultCity = ''Paris''\<rparr>, Prompt],
         stdinLines = [], stdinEnd = EOF,
         goroutines = [HandleCommandAt [], FetchWeatherAt [], FetchWeatherAt []],
         exited = None\<rparr>"
  have r: "exec ?s ?run = Some ?final"
    by (rule run_f)
  have z: "inFlight ?final = 0"
    by (simp add: inFlight_def)
  have i: "issued ?s ?run = 2"
    by (simp add: issuedBy_def system_eval handler_eval ToLower_eval example_defs startupTwo_def)
  from every_fetch_outcome_printed_once [of _ _ _ startupTwo "[''f'']" EOF,
      THEN conjunct2, THEN conjunct2, THEN conjunct2, THEN conjunct1, rule_format,
      OF conjI [OF r z]] i r
  show ?thesis by simp
qed

subsection \<open>The command w\<close>

text \<open>
  C3. The code at \<open>w paris\<close> when the provider resolves the city and the weather
  request fails: \<^verbatim>\<open>handleCommand\<close> starts \<^verbatim>\<open>fetchWeather\<close> and waits at
  \<^verbatim>\<open>printResult(<-weatherChan)\<close>; the error goes to \<^verbatim>\<open>errorChan\<close> and \<^verbatim>\<open>main\<close>
  prints it; the handler is still waiting on \<^verbatim>\<open>weatherChan\<close>. When a later \<open>f\<close>
  starts its goroutines, that handler can take the result of one of them. And when the
  provider does not resolve the city, no \<^verbatim>\<open>fetchWeather\<close> is started and the handler
  waits on \<^verbatim>\<open>weatherChan\<close> all the same, after sending the error.
\<close>

theorem w_failure_leaves_handler_waiting:
  "exec (mainStart startupTwo [''w paris'', ''f''] EOF)
     [CmdRecv, Enter 0 worldWeatherDown, Perform 0, Perform 0,
      Enter 1 worldWeatherDown, MainRecv 1] =
   Some \<lparr>config = cfgTwo, written = [],
         stdout = [PrintCommands, Prompt, Prompt, Println [],
                   Println ''Failed to fetch data: timeout'', Prompt],
         stdinLines = [''f''], stdinEnd = EOF,
         goroutines = [HandleCommandAt [RecvWeatherPrint], FetchWeatherAt []],
         exited = None\<rparr>
   \<and> exec (mainStart startupTwo [''w paris'', ''f''] EOF)
     [CmdRecv, Enter 0 worldWeatherDown, Perform 0, Perform 0,
      Enter 1 worldWeatherDown, MainRecv 1,
      CmdRecv, Enter 2 worldOk, Perform 2, Perform 2, Perform 2, Enter 3 worldOk,
      HandlerRecv 3 0] =
   Some \<lparr>config = cfgTwo, written = [],
         stdout = [PrintCommands, Prompt, Prompt, Println [],
                   Println ''Failed to fetch data: timeout'', Prompt, Prompt, Println [],
                   PrintResult \<lparr>Temperature = 0x41A00000, FeelsLike = 0x41980000,
                                Description = ''clear sky'', ResultCountry = ''FR'',
                                ResultCity = ''Paris''\<rparr>],
         stdinLines = [], stdinEnd = EOF,
         goroutines = [HandleCommandAt [], FetchWeatherAt [], HandleCommandAt [],
                       FetchWeatherAt [], FetchWeatherNew (Coordinates rome)],
         exited = None\<rparr>
   \<and> handleCommand worldOk cfgTwo [''w'', ''atlantis''] =
       (cfgTwo, [Print (Println []), SendError ''Location not found'', RecvWeatherPrint])"
  by (simp add: system_eval handler_eval ToLower_eval example_defs startupTwo_def)

end
